theory Spec2Isabelle
  imports
    Main
    "HOL-Library.Log_Nat"
    "HOL-Library.Char_ord"
    "HOL-Library.List_Lexorder"
begin

section \<open>Python values\<close>

text \<open>
  The cached vehicle payload and the configuration entry are JSON documents, so the
  values that reach the sensor code are Python's \<open>None\<close>, \<open>bool\<close>, \<open>int\<close>,
  \<open>float\<close>, \<open>str\<close>, \<open>list\<close> and \<open>dict\<close> (with string keys). A
  \<open>string\<close> is a list of 8-bit characters, each one a code point from U+0000 to
  U+00FF; strings with other code points are outside the model.

  A Python \<open>float\<close> is an IEEE 754 binary64 number. \<open>Finite q\<close> is the finite
  number whose exact value is the rational \<open>q\<close> (with \<open>Finite 0\<close> the positive zero);
  the negative zero, the two infinities and NaN are separate constructors.
\<close>

datatype pyfloat = Finite rat | NegZero | PosInf | NegInf | NaN

datatype pyval =
    PyNone
  | PyBool bool
  | PyInt int
  | PyFloat pyfloat
  | PyStr string
  | PyList "pyval list"
  | PyDict "(string \<times> pyval) list"

datatype pyerror =
    TypeError
  | ValueError
  | OverflowError
  | KeyError string
  | AttributeError
  | HomeAssistantError

type_synonym 'a result = "pyerror + 'a"

text \<open>Truth value testing, as \<open>and\<close>, \<open>not\<close> and \<open>if\<close> do it.\<close>

fun truthy :: "pyval \<Rightarrow> bool" where
  "truthy PyNone = False"
| "truthy (PyBool b) = b"
| "truthy (PyInt n) = (n \<noteq> 0)"
| "truthy (PyFloat x) = (x \<noteq> Finite 0 \<and> x \<noteq> NegZero)"
| "truthy (PyStr s) = (s \<noteq> [])"
| "truthy (PyList xs) = (xs \<noteq> [])"
| "truthy (PyDict kvs) = (kvs \<noteq> [])"

text \<open>\<open>a and b\<close>: the right operand is only used (and can only raise) when the
  left one is true; otherwise the left operand itself is the value.\<close>

definition py_and :: "pyval \<Rightarrow> pyval result \<Rightarrow> pyval result" where
  "py_and a b = (if truthy a then b else Inr a)"

text \<open>Truth value of a field of type \<open>str | None\<close>.\<close>

fun truthy_str :: "string option \<Rightarrow> bool" where
  "truthy_str None = False"
| "truthy_str (Some s) = (s \<noteq> [])"

subsection \<open>Binary64 arithmetic\<close>

text \<open>Rounding a rational to the nearest integer, ties to the even one.\<close>

definition round_half_even :: "rat \<Rightarrow> int" where
  "round_half_even q =
     (let f = \<lfloor>q\<rfloor>; d = q - of_int f
      in if d < 1 / 2 then f
         else if 1 / 2 < d then f + 1
         else if even f then f else f + 1)"

text \<open>The exponent \<open>e\<close> with \<open>2 ^ e \<le> a < 2 ^ (e + 1)\<close>, for a positive rational.\<close>

definition floor_log2 :: "rat \<Rightarrow> int" where
  "floor_log2 a =
     (let (p, d) = quotient_of a; k = bitlen p - bitlen d
      in if 2 powi k \<le> a then k else k - 1)"

text \<open>
  Round-to-nearest, ties-to-even, of an exact rational to binary64: 53 significant bits,
  least binary exponent \<open>- 1022\<close> (below it the spacing stays \<open>2 ^ - 1074\<close>), and
  overflow to an infinity from \<open>2 ^ 1024\<close> on.
\<close>

definition binary64_round :: "rat \<Rightarrow> pyfloat" where
  "binary64_round q =
     (if q = 0 then Finite 0
      else let a = \<bar>q\<bar>;
               e = max (floor_log2 a) (- 1022);
               ulp = 2 powi (e - 52);
               r = of_int (round_half_even (a / ulp)) * ulp
           in if 2 ^ 1024 \<le> r then (if q < 0 then NegInf else PosInf)
              else if r = 0 then (if q < 0 then NegZero else Finite 0)
              else Finite (if q < 0 then - r else r))"

fun is_neg :: "pyfloat \<Rightarrow> bool" where
  "is_neg (Finite q) = (q < 0)"
| "is_neg NegZero = True"
| "is_neg PosInf = False"
| "is_neg NegInf = True"
| "is_neg NaN = False"

definition is_zero :: "pyfloat \<Rightarrow> bool" where
  "is_zero x = (x = Finite 0 \<or> x = NegZero)"

definition is_inf :: "pyfloat \<Rightarrow> bool" where
  "is_inf x = (x = PosInf \<or> x = NegInf)"

text \<open>The product of two floats.\<close>

definition float_mul :: "pyfloat \<Rightarrow> pyfloat \<Rightarrow> pyfloat" where
  "float_mul x y =
     (if x = NaN \<or> y = NaN then NaN
      else if (is_inf x \<and> is_zero y) \<or> (is_zero x \<and> is_inf y) then NaN
      else if is_inf x \<or> is_inf y then (if is_neg x \<noteq> is_neg y then NegInf else PosInf)
      else if is_zero x \<or> is_zero y then (if is_neg x \<noteq> is_neg y then NegZero else Finite 0)
      else (case (x, y) of
              (Finite a, Finite b) \<Rightarrow> binary64_round (a * b)
            | _ \<Rightarrow> NaN))"

text \<open>The conversion of an \<open>int\<close> operand to \<open>float\<close>, which raises when the
  integer is too large.\<close>

definition float_of_int :: "int \<Rightarrow> pyfloat result" where
  "float_of_int n =
     (case binary64_round (of_int n) of
        PosInf \<Rightarrow> Inl OverflowError
      | NegInf \<Rightarrow> Inl OverflowError
      | x \<Rightarrow> Inr x)"

subsection \<open>The operators used by \<open>value_cast\<close>\<close>

text \<open>\<open>x * n\<close> for an \<open>int\<close> right operand \<open>n\<close>.\<close>

fun py_mul_int :: "pyval \<Rightarrow> int \<Rightarrow> pyval result" where
  "py_mul_int PyNone n = Inl TypeError"
| "py_mul_int (PyBool b) n = Inr (PyInt ((if b then 1 else 0) * n))"
| "py_mul_int (PyInt m) n = Inr (PyInt (m * n))"
| "py_mul_int (PyFloat x) n =
     (case float_of_int n of
        Inl e \<Rightarrow> Inl e
      | Inr y \<Rightarrow> Inr (PyFloat (float_mul x y)))"
| "py_mul_int (PyStr s) n = Inr (PyStr (concat (replicate (nat n) s)))"
| "py_mul_int (PyList xs) n = Inr (PyList (concat (replicate (nat n) xs)))"
| "py_mul_int (PyDict kvs) n = Inl TypeError"

text \<open>\<open>round(x)\<close> with one argument: an \<open>int\<close>, rounding a float half to even.\<close>

fun py_round :: "pyval \<Rightarrow> pyval result" where
  "py_round (PyBool b) = Inr (PyInt (if b then 1 else 0))"
| "py_round (PyInt n) = Inr (PyInt n)"
| "py_round (PyFloat (Finite q)) = Inr (PyInt (round_half_even q))"
| "py_round (PyFloat NegZero) = Inr (PyInt 0)"
| "py_round (PyFloat PosInf) = Inl OverflowError"
| "py_round (PyFloat NegInf) = Inl OverflowError"
| "py_round (PyFloat NaN) = Inl ValueError"
| "py_round PyNone = Inl TypeError"
| "py_round (PyStr s) = Inl TypeError"
| "py_round (PyList xs) = Inl TypeError"
| "py_round (PyDict kvs) = Inl TypeError"

section \<open>The host platform\<close>

text \<open>
  The names \<open>sensor.py\<close> imports from the host platform. The unit constants are the
  host's string enumerations; the sensor classes are enumerations; the two unit
  converters and the configuration key belong to code that is not part of the
  integration's sensor module, so they are parameters of everything below.
\<close>

definition UnitOfEnergy_KILO_WATT_HOUR :: string where
  "UnitOfEnergy_KILO_WATT_HOUR = ''kWh''"

definition PERCENTAGE :: string where
  "PERCENTAGE = ''%''"

definition UnitOfVolume_LITERS :: string where
  "UnitOfVolume_LITERS = ''L''"

definition UnitOfVolume_GALLONS :: string where
  "UnitOfVolume_GALLONS = ''gal''"

definition UnitOfLength_KILOMETERS :: string where
  "UnitOfLength_KILOMETERS = ''km''"

definition UnitOfLength_MILES :: string where
  "UnitOfLength_MILES = ''mi''"

definition UnitOfPressure_KPA :: string where
  "UnitOfPressure_KPA = ''kPa''"

definition UnitOfPressure_PSI :: string where
  "UnitOfPressure_PSI = ''psi''"

datatype SensorDeviceClass = ENERGY_STORAGE | BATTERY | DISTANCE | PRESSURE

datatype SensorStateClass = MEASUREMENT | TOTAL_INCREASING

text \<open>\<open>Converter.convert(value, from_unit, to_unit)\<close>.\<close>

type_synonym converter = "pyval \<Rightarrow> string \<Rightarrow> string \<Rightarrow> pyval result"

record environment =
  CONF_USE_IMPERIAL :: string
  DistanceConverter_convert :: converter
  PressureConverter_convert :: converter

section \<open>Sensor descriptions (\<open>sensor.py\<close>)\<close>

text \<open>The members of \<open>EntityDescriptionKey\<close> that the sensor table uses.\<close>

datatype EntityDescriptionKey =
    BATTERY_CAPACITY
  | BATTERY_LEVEL
  | CHARGING_STATE
  | ENGINE_OIL
  | FUEL
  | FUEL_PERCENT
  | FUEL_RANGE
  | ODOMETER
  | RANGE
  | TIRE_PRESSURE_BACK_LEFT
  | TIRE_PRESSURE_BACK_RIGHT
  | TIRE_PRESSURE_FRONT_LEFT
  | TIRE_PRESSURE_FRONT_RIGHT

text \<open>
  The fields of \<open>SmartcarSensorDescription\<close> that the table sets; a field the table
  leaves out has its default \<open>None\<close>. A callable field is a function that returns a
  value or raises.
\<close>

record SmartcarSensorDescription =
  key :: EntityDescriptionKey
  name :: string
  value_key_path :: string
  value_cast :: "(pyval \<Rightarrow> pyval result) option"
  icon :: "string option"
  device_class :: "SensorDeviceClass option"
  state_class :: "SensorStateClass option"
  suggested_display_precision :: "int option"
  native_unit_of_measurement :: "string option"
  imperial_unit_of_measurement :: "string option"
  to_native_conversion :: "(pyval \<Rightarrow> pyval result) option"
  from_native_conversion :: "(pyval \<Rightarrow> pyval result) option"

text \<open>\<open>lambda pct: pct and round(pct * 100)\<close>\<close>

definition pct_value_cast :: "pyval \<Rightarrow> pyval result" where
  "pct_value_cast pct =
     py_and pct (case py_mul_int pct 100 of Inl e \<Rightarrow> Inl e | Inr p \<Rightarrow> py_round p)"

definition SENSOR_TYPES :: "environment \<Rightarrow> SmartcarSensorDescription list" where
  "SENSOR_TYPES env =
   [ \<lparr> key = BATTERY_CAPACITY,
       name = ''Battery Capacity'',
       value_key_path = ''battery_nominal_capacity.capacity.nominal'',
       value_cast = None,
       icon = None,
       device_class = Some ENERGY_STORAGE,
       state_class = Some MEASUREMENT,
       suggested_display_precision = None,
       native_unit_of_measurement = Some UnitOfEnergy_KILO_WATT_HOUR,
       imperial_unit_of_measurement = None,
       to_native_conversion = None,
       from_native_conversion = None \<rparr>,
     \<lparr> key = BATTERY_LEVEL,
       name = ''Battery'',
       value_key_path = ''battery.percentRemaining'',
       value_cast = Some pct_value_cast,
       icon = None,
       device_class = Some BATTERY,
       state_class = Some MEASUREMENT,
       suggested_display_precision = None,
       native_unit_of_measurement = Some PERCENTAGE,
       imperial_unit_of_measurement = None,
       to_native_conversion = None,
       from_native_conversion = None \<rparr>,
     \<lparr> key = CHARGING_STATE,
       name = ''Charging Status'',
       value_key_path = ''charge.state'',
       value_cast = None,
       icon = Some ''mdi:ev-station'',
       device_class = None,
       state_class = None,
       suggested_display_precision = None,
       native_unit_of_measurement = None,
       imperial_unit_of_measurement = None,
       to_native_conversion = None,
       from_native_conversion = None \<rparr>,
     \<lparr> key = ENGINE_OIL,
       name = ''Engine Oil Life'',
       value_key_path = ''engine_oil.lifeRemaining'',
       value_cast = None,
       icon = Some ''mdi:oil-level'',
       device_class = None,
       state_class = Some MEASUREMENT,
       suggested_display_precision = None,
       native_unit_of_measurement = Some PERCENTAGE,
       imperial_unit_of_measurement = None,
       to_native_conversion = None,
       from_native_conversion = None \<rparr>,
     \<lparr> key = FUEL,
       name = ''Fuel'',
       value_key_path = ''fuel.amountRemaining'',
       value_cast = None,
       icon = Some ''mdi:gas-station'',
       device_class = None,
       state_class = Some MEASUREMENT,
       suggested_display_precision = None,
       native_unit_of_measurement = Some UnitOfVolume_LITERS,
       imperial_unit_of_measurement = Some UnitOfVolume_GALLONS,
       to_native_conversion = Some (\<lambda>v.
         DistanceConverter_convert env v UnitOfVolume_GALLONS UnitOfVolume_LITERS),
       from_native_conversion = Some (\<lambda>v.
         DistanceConverter_convert env v UnitOfVolume_LITERS UnitOfVolume_GALLONS) \<rparr>,
     \<lparr> key = FUEL_PERCENT,
       name = ''Fuel Percent'',
       value_key_path = ''fuel.percentRemaining'',
       value_cast = Some pct_value_cast,
       icon = Some ''mdi:gas-station'',
       device_class = None,
       state_class = Some MEASUREMENT,
       suggested_display_precision = None,
       native_unit_of_measurement = Some PERCENTAGE,
       imperial_unit_of_measurement = None,
       to_native_conversion = None,
       from_native_conversion = None \<rparr>,
     \<lparr> key = FUEL_RANGE,
       name = ''Fuel Range'',
       value_key_path = ''fuel.range'',
       value_cast = None,
       icon = Some ''mdi:map-marker-distance'',
       device_class = Some DISTANCE,
       state_class = Some MEASUREMENT,
       suggested_display_precision = None,
       native_unit_of_measurement = Some UnitOfLength_KILOMETERS,
       imperial_unit_of_measurement = Some UnitOfLength_MILES,
       to_native_conversion = Some (\<lambda>v.
         DistanceConverter_convert env v UnitOfLength_MILES UnitOfLength_KILOMETERS),
       from_native_conversion = Some (\<lambda>v.
         DistanceConverter_convert env v UnitOfLength_KILOMETERS UnitOfLength_MILES) \<rparr>,
     \<lparr> key = ODOMETER,
       name = ''Odometer'',
       value_key_path = ''odometer.distance'',
       value_cast = None,
       icon = None,
       device_class = Some DISTANCE,
       state_class = Some TOTAL_INCREASING,
       suggested_display_precision = None,
       native_unit_of_measurement = Some UnitOfLength_KILOMETERS,
       imperial_unit_of_measurement = Some UnitOfLength_MILES,
       to_native_conversion = Some (\<lambda>v.
         DistanceConverter_convert env v UnitOfLength_MILES UnitOfLength_KILOMETERS),
       from_native_conversion = Some (\<lambda>v.
         DistanceConverter_convert env v UnitOfLength_KILOMETERS UnitOfLength_MILES) \<rparr>,
     \<lparr> key = RANGE,
       name = ''Range'',
       value_key_path = ''battery.range'',
       value_cast = None,
       icon = Some ''mdi:map-marker-distance'',
       device_class = Some DISTANCE,
       state_class = Some MEASUREMENT,
       suggested_display_precision = None,
       native_unit_of_measurement = Some UnitOfLength_KILOMETERS,
       imperial_unit_of_measurement = Some UnitOfLength_MILES,
       to_native_conversion = Some (\<lambda>v.
         DistanceConverter_convert env v UnitOfLength_MILES UnitOfLength_KILOMETERS),
       from_native_conversion = Some (\<lambda>v.
         DistanceConverter_convert env v UnitOfLength_KILOMETERS UnitOfLength_MILES) \<rparr>,
     \<lparr> key = TIRE_PRESSURE_BACK_LEFT,
       name = ''Tire Pressure Back Left'',
       value_key_path = ''tires_pressure.backLeft'',
       value_cast = None,
       icon = None,
       device_class = Some PRESSURE,
       state_class = Some MEASUREMENT,
       suggested_display_precision = Some 1,
       native_unit_of_measurement = Some UnitOfPressure_KPA,
       imperial_unit_of_measurement = Some UnitOfPressure_PSI,
       to_native_conversion = Some (\<lambda>v.
         PressureConverter_convert env v UnitOfPressure_PSI UnitOfPressure_KPA),
       from_native_conversion = Some (\<lambda>v.
         PressureConverter_convert env v UnitOfPressure_KPA UnitOfPressure_PSI) \<rparr>,
     \<lparr> key = TIRE_PRESSURE_BACK_RIGHT,
       name = ''Tire Pressure Back Right'',
       value_key_path = ''tires_pressure.backRight'',
       value_cast = None,
       icon = None,
       device_class = Some PRESSURE,
       state_class = Some MEASUREMENT,
       suggested_display_precision = Some 1,
       native_unit_of_measurement = Some UnitOfPressure_KPA,
       imperial_unit_of_measurement = Some UnitOfPressure_PSI,
       to_native_conversion = Some (\<lambda>v.
         PressureConverter_convert env v UnitOfPressure_PSI UnitOfPressure_KPA),
       from_native_conversion = Some (\<lambda>v.
         PressureConverter_convert env v UnitOfPressure_KPA UnitOfPressure_PSI) \<rparr>,
     \<lparr> key = TIRE_PRESSURE_FRONT_LEFT,
       name = ''Tire Pressure Front Left'',
       value_key_path = ''tires_pressure.frontLeft'',
       value_cast = None,
       icon = None,
       device_class = Some PRESSURE,
       state_class = Some MEASUREMENT,
       suggested_display_precision = Some 1,
       native_unit_of_measurement = Some UnitOfPressure_KPA,
       imperial_unit_of_measurement = Some UnitOfPressure_PSI,
       to_native_conversion = Some (\<lambda>v.
         PressureConverter_convert env v UnitOfPressure_PSI UnitOfPressure_KPA),
       from_native_conversion = Some (\<lambda>v.
         PressureConverter_convert env v UnitOfPressure_KPA UnitOfPressure_PSI) \<rparr>,
     \<lparr> key = TIRE_PRESSURE_FRONT_RIGHT,
       name = ''Tire Pressure Front Right'',
       value_key_path = ''tires_pressure.frontRight'',
       value_cast = None,
       icon = None,
       device_class = Some PRESSURE,
       state_class = Some MEASUREMENT,
       suggested_display_precision = Some 1,
       native_unit_of_measurement = Some UnitOfPressure_KPA,
       imperial_unit_of_measurement = Some UnitOfPressure_PSI,
       to_native_conversion = Some (\<lambda>v.
         PressureConverter_convert env v UnitOfPressure_PSI UnitOfPressure_KPA),
       from_native_conversion = Some (\<lambda>v.
         PressureConverter_convert env v UnitOfPressure_KPA UnitOfPressure_PSI) \<rparr> ]"

section \<open>The sensor entity (\<open>sensor.py\<close>)\<close>

text \<open>
  What the sensor module uses of a vehicle coordinator: the data of its configuration
  entry and the capability check \<open>is_scope_enabled(key, verbose)\<close>.
\<close>

record SmartcarVehicleCoordinator =
  config_entry_data :: "string \<rightharpoonup> pyval"
  is_scope_enabled :: "EntityDescriptionKey \<Rightarrow> bool \<Rightarrow> bool"

text \<open>
  The state of a \<open>SmartcarSensor\<close> that the sensor module reads or writes: the
  coordinator and the description handed to the base class by \<open>super().__init__\<close>,
  and the two attributes that \<open>__init__\<close> sets.
\<close>

record SmartcarSensor =
  coordinator :: SmartcarVehicleCoordinator
  entity_description :: SmartcarSensorDescription
  use_imperial :: pyval
  attr_native_unit_of_measurement :: "string option"

text \<open>\<open>mapping.get(k, default)\<close>\<close>

definition dict_get :: "(string \<rightharpoonup> pyval) \<Rightarrow> string \<Rightarrow> pyval \<Rightarrow> pyval" where
  "dict_get m k dflt = (case m k of None \<Rightarrow> dflt | Some v \<Rightarrow> v)"

text \<open>\<open>SmartcarSensor.__init__\<close>\<close>

definition SmartcarSensor_init ::
    "environment \<Rightarrow> SmartcarVehicleCoordinator \<Rightarrow> SmartcarSensorDescription \<Rightarrow> SmartcarSensor" where
  "SmartcarSensor_init env coord description =
     (let imperial = dict_get (config_entry_data coord) (CONF_USE_IMPERIAL env) (PyBool False)
      in \<lparr> coordinator = coord,
           entity_description = description,
           use_imperial = imperial,
           attr_native_unit_of_measurement =
             (if truthy imperial \<and> truthy_str (imperial_unit_of_measurement description)
              then imperial_unit_of_measurement description
              else native_unit_of_measurement description) \<rparr>)"

text \<open>
  \<open>SmartcarSensor._extract_value\<close>. The second argument is what
  \<open>self._extract_raw_value()\<close> returned: the method belongs to the base entity
  class, which reads the coordinator's cache.
\<close>

definition extract_value :: "SmartcarSensor \<Rightarrow> pyval \<Rightarrow> pyval result" where
  "extract_value self raw =
     (if raw = PyNone then Inr PyNone
      else case (if truthy (use_imperial self)
                 then from_native_conversion (entity_description self) else None) of
             Some conv \<Rightarrow> conv raw
           | None \<Rightarrow>
               (case (if \<not> truthy (use_imperial self)
                      then to_native_conversion (entity_description self) else None) of
                  Some conv \<Rightarrow> conv raw
                | None \<Rightarrow> Inr raw))"

text \<open>
  \<open>async_setup_entry\<close>: the dictionary of coordinators, keyed by VIN, is a list of
  pairs in insertion order; the result is the list handed to
  \<open>async_add_entities\<close>.
\<close>

definition async_setup_entry ::
    "environment \<Rightarrow> (string \<times> SmartcarVehicleCoordinator) list \<Rightarrow> SmartcarSensor list" where
  "async_setup_entry env coordinators =
     [SmartcarSensor_init env coord description.
        coord \<leftarrow> map snd coordinators,
        description \<leftarrow> SENSOR_TYPES env,
        is_scope_enabled coord (key description) True]"

section \<open>Unique identifiers (\<open>util.py\<close>)\<close>

text \<open>
  \<open>str.lower\<close> and \<open>str.join\<close>. Among the code points below 256 the
  upper-case letters are U+0041 to U+005A, U+00C0 to U+00D6 and U+00D8 to U+00DE; each
  lower-cases to the code point 32 above it, and \<open>str.lower\<close> leaves every other
  one as it is.
\<close>

definition lower_char :: "char \<Rightarrow> char" where
  "lower_char c =
     (let n = of_char c :: nat
      in if (65 \<le> n \<and> n \<le> 90) \<or> (192 \<le> n \<and> n \<le> 222 \<and> n \<noteq> 215)
         then char_of (n + 32) else c)"

definition str_lower :: "string \<Rightarrow> string" where
  "str_lower s = map lower_char s"

fun str_join :: "string \<Rightarrow> string list \<Rightarrow> string" where
  "str_join sep [] = []"
| "str_join sep [x] = x"
| "str_join sep (x # y # ys) = x @ sep @ str_join sep (y # ys)"

text \<open>
  \<open>unique_id_from_entry_data\<close>: \<open>data\<close> is a dictionary, a list of pairs with
  distinct keys in insertion order; \<open>sorted\<close> orders strings by code point.
\<close>

definition unique_id_from_entry_data :: "(string \<times> pyval) list \<Rightarrow> string result" where
  "unique_id_from_entry_data data =
     (case map_of data ''vehicles'' of
        None \<Rightarrow> Inl (KeyError ''vehicles'')
      | Some (PyDict vehicles) \<Rightarrow> Inr (str_lower (str_join '' '' (sort (map fst vehicles))))
      | Some _ \<Rightarrow> Inl AttributeError)"

section \<open>Sample configurations\<close>

text \<open>
  A concrete environment in which each converter returns a record of the call it received
  (its class, the value and the two units), and two coordinators: one whose configuration
  asks for imperial units and enables every scope, one without the option (metric) that
  enables the odometer and the charging state only.
\<close>

definition recording_convert :: "string \<Rightarrow> converter" where
  "recording_convert cls v from_unit to_unit =
     Inr (PyList [PyStr cls, v, PyStr from_unit, PyStr to_unit])"

definition recording_env :: environment where
  "recording_env =
     \<lparr> CONF_USE_IMPERIAL = ''use_imperial'',
       DistanceConverter_convert = recording_convert ''DistanceConverter'',
       PressureConverter_convert = recording_convert ''PressureConverter'' \<rparr>"

definition imperial_coordinator :: SmartcarVehicleCoordinator where
  "imperial_coordinator =
     \<lparr> config_entry_data = [''use_imperial'' \<mapsto> PyBool True],
       is_scope_enabled = (\<lambda>k verbose. True) \<rparr>"

definition metric_coordinator :: SmartcarVehicleCoordinator where
  "metric_coordinator =
     \<lparr> config_entry_data = Map.empty,
       is_scope_enabled = (\<lambda>k verbose. k = ODOMETER \<or> k = CHARGING_STATE) \<rparr>"

text \<open>
  A second environment, in which each converter accepts the units of its own kind only
  and raises \<open>HomeAssistantError\<close> for any other unit, as the converters of the
  host do; equal units are returned unchanged.
\<close>

definition strict_convert :: "string \<Rightarrow> string list \<Rightarrow> converter" where
  "strict_convert cls units v from_unit to_unit =
     (if from_unit = to_unit then Inr v
      else if from_unit \<in> set units \<and> to_unit \<in> set units
        then Inr (PyList [PyStr cls, v, PyStr from_unit, PyStr to_unit])
      else Inl HomeAssistantError)"

definition strict_env :: environment where
  "strict_env =
     \<lparr> CONF_USE_IMPERIAL = ''use_imperial'',
       DistanceConverter_convert =
         strict_convert ''DistanceConverter'' [UnitOfLength_KILOMETERS, UnitOfLength_MILES],
       PressureConverter_convert =
         strict_convert ''PressureConverter'' [UnitOfPressure_KPA, UnitOfPressure_PSI] \<rparr>"

text \<open>Entries of the table, by position.\<close>

definition battery_level_description :: "environment \<Rightarrow> SmartcarSensorDescription" where
  "battery_level_description env = SENSOR_TYPES env ! 1"

definition charging_state_description :: "environment \<Rightarrow> SmartcarSensorDescription" where
  "charging_state_description env = SENSOR_TYPES env ! 2"

definition fuel_description :: "environment \<Rightarrow> SmartcarSensorDescription" where
  "fuel_description env = SENSOR_TYPES env ! 4"

definition odometer_description :: "environment \<Rightarrow> SmartcarSensorDescription" where
  "odometer_description env = SENSOR_TYPES env ! 7"

section \<open>Auxiliary facts\<close>

lemmas unit_defs =
  UnitOfEnergy_KILO_WATT_HOUR_def PERCENTAGE_def UnitOfVolume_LITERS_def
  UnitOfVolume_GALLONS_def UnitOfLength_KILOMETERS_def UnitOfLength_MILES_def
  UnitOfPressure_KPA_def UnitOfPressure_PSI_def

subsection \<open>Binary64 rounding\<close>

lemma bitlen_powi_bounds:
  assumes "0 < p"
  shows "(2::rat) powi (bitlen p - 1) \<le> of_int p" and "of_int p < (2::rat) powi (bitlen p)"
proof -
  from bitlen_bounds[OF assms]
  have lo: "2 ^ nat (bitlen p - 1) \<le> p" and hi: "p < 2 ^ nat (bitlen p)"
    by simp_all
  have ge1: "1 \<le> bitlen p"
    using assms bitlen_eq_zero_iff[of p] bitlen_nonneg[of p] by linarith
  have "(of_int (2 ^ nat (bitlen p - 1)) :: rat) \<le> of_int p"
    using lo by (simp only: of_int_le_iff)
  then show "(2::rat) powi (bitlen p - 1) \<le> of_int p"
    using ge1 by (simp add: power_int_def)
  have "(of_int p :: rat) < of_int (2 ^ nat (bitlen p))"
    using hi by (simp only: of_int_less_iff)
  then show "of_int p < (2::rat) powi (bitlen p)"
    using ge1 by (simp add: power_int_def)
qed

text \<open>\<open>floor_log2\<close> computes the binary exponent of a positive rational.\<close>

lemma floor_log2_bounds:
  assumes "0 < a"
  shows "2 powi floor_log2 a \<le> a \<and> a < 2 powi (floor_log2 a + 1)"
proof -
  obtain p d where q: "quotient_of a = (p, d)"
    by (cases "quotient_of a")
  have d: "0 < d"
    using q by (rule quotient_of_denom_pos)
  have a: "a = of_int p / of_int d"
    using q by (rule quotient_of_div)
  have p: "0 < p"
    using assms d unfolding a by (simp add: zero_less_divide_iff)
  define k where "k = bitlen p - bitlen d"
  have fl: "floor_log2 a = (if 2 powi k \<le> a then k else k - 1)"
    by (simp add: floor_log2_def q k_def Let_def)
  have up: "a < 2 powi (k + 1)"
  proof -
    have "a < 2 powi bitlen p / 2 powi (bitlen d - 1)"
      unfolding a using bitlen_powi_bounds[OF p] bitlen_powi_bounds[OF d] p d
      by (intro frac_less) simp_all
    also have "\<dots> = 2 powi (bitlen p - (bitlen d - 1))"
      by (subst power_int_diff) simp_all
    also have "bitlen p - (bitlen d - 1) = k + 1"
      by (simp add: k_def)
    finally show ?thesis .
  qed
  have low: "2 powi (k - 1) \<le> a"
  proof -
    have "k - 1 = (bitlen p - 1) - bitlen d"
      by (simp add: k_def)
    also have "(2::rat) powi \<dots> = 2 powi (bitlen p - 1) / 2 powi bitlen d"
      by (subst power_int_diff) simp_all
    finally have "(2::rat) powi (k - 1) = 2 powi (bitlen p - 1) / 2 powi bitlen d" .
    also have "\<dots> \<le> a"
      unfolding a using bitlen_powi_bounds[OF p] bitlen_powi_bounds[OF d] p d
      by (intro frac_le) simp_all
    finally show ?thesis .
  qed
  show ?thesis
    using up low by (auto simp: fl not_le)
qed

lemma floor_log2_eqI:
  assumes "2 powi e \<le> a" and "a < 2 powi (e + 1)"
  shows "floor_log2 a = e"
proof -
  have pos: "0 < a"
    using assms(1) by (rule less_le_trans[rotated]) simp
  from floor_log2_bounds[OF pos]
  have lo: "2 powi floor_log2 a \<le> a" and hi: "a < 2 powi (floor_log2 a + 1)"
    by simp_all
  have "(2::rat) powi e < 2 powi (floor_log2 a + 1)"
    using assms(1) hi by (rule le_less_trans)
  then have 1: "e < floor_log2 a + 1"
    using power_int_increasing[of "floor_log2 a + 1" e "2::rat"]
    by (cases "e < floor_log2 a + 1") simp_all
  have "(2::rat) powi floor_log2 a < 2 powi (e + 1)"
    using lo assms(2) by (rule le_less_trans)
  then have 2: "floor_log2 a < e + 1"
    using power_int_increasing[of "e + 1" "floor_log2 a" "2::rat"]
    by (cases "floor_log2 a < e + 1") simp_all
  from 1 2 show ?thesis by simp
qed

text \<open>\<open>round_half_even\<close> returns the integer that is strictly nearest, when there is one.\<close>

lemma round_half_even_eqI:
  assumes "\<bar>q - of_int n\<bar> < 1 / 2"
  shows "round_half_even q = n"
proof -
  define f where "f = \<lfloor>q\<rfloor>"
  have f: "of_int f \<le> q" "q < of_int f + 1"
    unfolding f_def by linarith+
  have n: "q - 1 / 2 < of_int n" "of_int n < q + 1 / 2"
    using assms by linarith+
  have "of_int (n - f) < (3 / 2 :: rat)" "(- 1 / 2 :: rat) < of_int (n - f)"
    using f n by simp_all
  then have "n - f < 2" "- 1 < n - f"
    by linarith+
  then consider "n = f" | "n = f + 1"
    by linarith
  then show ?thesis
  proof cases
    case 1
    then have "q - of_int f < 1 / 2"
      using n by simp
    then show ?thesis
      using 1 by (simp add: round_half_even_def Let_def flip: f_def)
  next
    case 2
    then have "1 / 2 < q - of_int f"
      using n by simp
    then show ?thesis
      using 2 by (simp add: round_half_even_def Let_def flip: f_def)
  qed
qed

text \<open>
  In the normal range a positive rational with binary exponent \<open>e\<close> rounds to the
  multiple of \<open>2 ^ (e - 52)\<close> whose 53-bit significand is nearest.
\<close>

lemma binary64_round_normal:
  assumes lo: "2 powi e \<le> q" and hi: "q < 2 powi (e + 1)"
    and e: "- 1022 \<le> e" "e \<le> 1023"
    and n: "\<bar>q / 2 powi (e - 52) - of_int n\<bar> < 1 / 2" "0 < n" "n < 2 ^ 53"
  shows "binary64_round q = Finite (of_int n * 2 powi (e - 52))"
proof -
  have pos: "0 < q"
    using lo by (rule less_le_trans[rotated]) simp
  have fl: "floor_log2 q = e"
    using lo hi by (rule floor_log2_eqI)
  have rnd: "round_half_even (q / 2 powi (e - 52)) = n"
    using n(1) by (rule round_half_even_eqI)
  have ulp: "(0::rat) < 2 powi (e - 52)"
    by simp
  have "(of_int n :: rat) < of_int (2 ^ 53)"
    using n(3) by (simp only: of_int_less_iff)
  then have "(of_int n :: rat) < 2 powi 53"
    by simp
  then have "of_int n * 2 powi (e - 52) < (2::rat) powi 53 * 2 powi (e - 52)"
    using ulp by (simp only: mult_less_cancel_right_pos)
  also have "\<dots> = 2 powi (53 + (e - 52))"
    by (subst power_int_add) simp_all
  also have "\<dots> \<le> 2 powi 1024"
    using e by (intro power_int_increasing) simp_all
  also have "\<dots> = 2 ^ 1024"
    by (simp only: power_int_numeral)
  finally have small: "((2::rat) ^ 1024 \<le> of_int n * 2 powi (e - 52)) = False"
    by (simp only: not_le[symmetric] simp_thms)
  have nz: "((of_int n :: rat) * 2 powi (e - 52) = 0) = False"
    using n(2) by simp
  have q0: "(q = 0) = False" "(q < 0) = False" "\<bar>q\<bar> = q"
    using pos by simp_all
  have m: "max e (- 1022) = e"
    using e by simp
  show ?thesis
    by (simp only: binary64_round_def Let_def q0 fl m rnd small nz if_False)
qed

text \<open>The literal \<open>0.42\<close>, the float \<open>100.0\<close> and their product.\<close>

lemma float_042: "binary64_round (42 / 100) = Finite (7566047373982433 / 18014398509481984)"
proof -
  have "binary64_round (42 / 100) = Finite (of_int 7566047373982433 * 2 powi (- 2 - 52))"
    by (rule binary64_round_normal) simp_all
  then show ?thesis by simp
qed

lemma float_100: "float_of_int 100 = Inr (Finite 100)"
proof -
  have "binary64_round 100 = Finite (of_int (100 * 2 ^ 46) * 2 powi (6 - 52))"
    by (rule binary64_round_normal) simp_all
  then show ?thesis by (simp add: float_of_int_def)
qed

lemma float_042_times_100:
  "float_mul (Finite (7566047373982433 / 18014398509481984)) (Finite 100) = Finite 42"
proof -
  have "binary64_round (7566047373982433 / 18014398509481984 * 100)
          = Finite (of_int (42 * 2 ^ 47) * 2 powi (5 - 52))"
    by (rule binary64_round_normal) simp_all
  then show ?thesis by (simp add: float_mul_def is_inf_def is_zero_def)
qed

subsection \<open>The value transform\<close>

lemma pct_value_cast_042:
  "pct_value_cast (PyFloat (binary64_round (42 / 100))) = Inr (PyInt 42)"
  unfolding float_042
  by (simp add: pct_value_cast_def py_and_def float_100 float_042_times_100 round_half_even_eqI)

lemma pct_value_cast_falsy: "\<not> truthy v \<Longrightarrow> pct_value_cast v = Inr v"
  by (simp add: pct_value_cast_def py_and_def)

lemma pct_value_cast_truthy:
  "truthy v \<Longrightarrow>
     pct_value_cast v = (case py_mul_int v 100 of Inl e \<Rightarrow> Inl e | Inr p \<Rightarrow> py_round p)"
  by (simp add: pct_value_cast_def py_and_def)

subsection \<open>The sensor table\<close>

lemma SENSOR_TYPES_length: "length (SENSOR_TYPES env) = 13"
  by (simp add: SENSOR_TYPES_def)

lemma SENSOR_TYPES_value_cast:
  "d \<in> set (SENSOR_TYPES env) \<Longrightarrow> value_cast d = Some cast \<Longrightarrow>
     (key d = BATTERY_LEVEL \<or> key d = FUEL_PERCENT) \<and> cast = pct_value_cast"
  by (auto simp: SENSOR_TYPES_def)

lemma SENSOR_TYPES_imperial_unit:
  "d \<in> set (SENSOR_TYPES env) \<Longrightarrow>
     truthy_str (imperial_unit_of_measurement d) = (imperial_unit_of_measurement d \<noteq> None)"
  by (auto simp: SENSOR_TYPES_def unit_defs)

lemma SENSOR_TYPES_conversions:
  assumes "d \<in> set (SENSOR_TYPES env)"
    and "from_native_conversion d = Some f" and "to_native_conversion d = Some g"
  shows "\<exists>convert native imperial.
           (convert = DistanceConverter_convert env \<or> convert = PressureConverter_convert env)
           \<and> native_unit_of_measurement d = Some native
           \<and> imperial_unit_of_measurement d = Some imperial
           \<and> f = (\<lambda>v. convert v native imperial)
           \<and> g = (\<lambda>v. convert v imperial native)"
proof -
  from assms(1) have "d \<in> set (SENSOR_TYPES env)" .
  then consider (none) "from_native_conversion d = None"
    | (distance) "\<exists>native imperial. native_unit_of_measurement d = Some native
         \<and> imperial_unit_of_measurement d = Some imperial
         \<and> from_native_conversion d = Some (\<lambda>v. DistanceConverter_convert env v native imperial)
         \<and> to_native_conversion d = Some (\<lambda>v. DistanceConverter_convert env v imperial native)"
    | (pressure) "\<exists>native imperial. native_unit_of_measurement d = Some native
         \<and> imperial_unit_of_measurement d = Some imperial
         \<and> from_native_conversion d = Some (\<lambda>v. PressureConverter_convert env v native imperial)
         \<and> to_native_conversion d = Some (\<lambda>v. PressureConverter_convert env v imperial native)"
    unfolding SENSOR_TYPES_def
    by (simp only: set_simps insert_iff empty_iff) (elim disjE; simp)
  then show ?thesis
  proof cases
    case none
    with assms show ?thesis by simp
  next
    case distance
    with assms show ?thesis by auto
  next
    case pressure
    with assms show ?thesis by auto
  qed
qed

lemma description_sel:
  "key (battery_level_description env) = BATTERY_LEVEL"
  "value_cast (battery_level_description env) = Some pct_value_cast"
  "key (charging_state_description env) = CHARGING_STATE"
  "to_native_conversion (charging_state_description env) = None"
  "from_native_conversion (charging_state_description env) = None"
  "key (odometer_description env) = ODOMETER"
  "native_unit_of_measurement (odometer_description env) = Some UnitOfLength_KILOMETERS"
  "imperial_unit_of_measurement (odometer_description env) = Some UnitOfLength_MILES"
  "from_native_conversion (odometer_description env) =
     Some (\<lambda>v. DistanceConverter_convert env v UnitOfLength_KILOMETERS UnitOfLength_MILES)"
  "to_native_conversion (odometer_description env) =
     Some (\<lambda>v. DistanceConverter_convert env v UnitOfLength_MILES UnitOfLength_KILOMETERS)"
  "key (fuel_description env) = FUEL"
  by (simp_all add: battery_level_description_def charging_state_description_def
      odometer_description_def fuel_description_def SENSOR_TYPES_def)

lemma fuel_sel:
  "from_native_conversion (fuel_description env) =
     Some (\<lambda>v. DistanceConverter_convert env v UnitOfVolume_LITERS UnitOfVolume_GALLONS)"
  "to_native_conversion (fuel_description env) =
     Some (\<lambda>v. DistanceConverter_convert env v UnitOfVolume_GALLONS UnitOfVolume_LITERS)"
  by (simp_all add: fuel_description_def SENSOR_TYPES_def)

lemma SENSOR_TYPES_converter_units:
  assumes "d \<in> set (SENSOR_TYPES env)" and "from_native_conversion d = Some f"
    and "to_native_conversion d = Some g"
  shows "(key d = FUEL
            \<and> f = (\<lambda>v. DistanceConverter_convert env v UnitOfVolume_LITERS UnitOfVolume_GALLONS)
            \<and> g = (\<lambda>v. DistanceConverter_convert env v UnitOfVolume_GALLONS UnitOfVolume_LITERS))
       \<or> (f = (\<lambda>v. DistanceConverter_convert env v UnitOfLength_KILOMETERS UnitOfLength_MILES)
            \<and> g = (\<lambda>v. DistanceConverter_convert env v UnitOfLength_MILES UnitOfLength_KILOMETERS))
       \<or> (f = (\<lambda>v. PressureConverter_convert env v UnitOfPressure_KPA UnitOfPressure_PSI)
            \<and> g = (\<lambda>v. PressureConverter_convert env v UnitOfPressure_PSI UnitOfPressure_KPA))"
proof -
  from assms(1) have "from_native_conversion d = None
    \<or> (key d = FUEL
        \<and> from_native_conversion d =
            Some (\<lambda>v. DistanceConverter_convert env v UnitOfVolume_LITERS UnitOfVolume_GALLONS)
        \<and> to_native_conversion d =
            Some (\<lambda>v. DistanceConverter_convert env v UnitOfVolume_GALLONS UnitOfVolume_LITERS))
    \<or> (from_native_conversion d =
            Some (\<lambda>v. DistanceConverter_convert env v UnitOfLength_KILOMETERS UnitOfLength_MILES)
        \<and> to_native_conversion d =
            Some (\<lambda>v. DistanceConverter_convert env v UnitOfLength_MILES UnitOfLength_KILOMETERS))
    \<or> (from_native_conversion d =
            Some (\<lambda>v. PressureConverter_convert env v UnitOfPressure_KPA UnitOfPressure_PSI)
        \<and> to_native_conversion d =
            Some (\<lambda>v. PressureConverter_convert env v UnitOfPressure_PSI UnitOfPressure_KPA))"
    unfolding SENSOR_TYPES_def
    by (simp only: set_simps insert_iff empty_iff) (elim disjE; simp)
  with assms(2,3) show ?thesis by auto
qed

lemma SENSOR_TYPES_distinct_keys: "distinct (map key (SENSOR_TYPES env))"
  by (simp add: SENSOR_TYPES_def)

lemma description_mem:
  "battery_level_description env \<in> set (SENSOR_TYPES env)"
  "charging_state_description env \<in> set (SENSOR_TYPES env)"
  "fuel_description env \<in> set (SENSOR_TYPES env)"
  "odometer_description env \<in> set (SENSOR_TYPES env)"
  by (simp_all add: battery_level_description_def charging_state_description_def
      odometer_description_def fuel_description_def SENSOR_TYPES_length)

subsection \<open>Entities and setup\<close>

lemma SmartcarSensor_init_sel:
  "coordinator (SmartcarSensor_init env coord d) = coord"
  "entity_description (SmartcarSensor_init env coord d) = d"
  "use_imperial (SmartcarSensor_init env coord d) =
     dict_get (config_entry_data coord) (CONF_USE_IMPERIAL env) (PyBool False)"
  by (simp_all add: SmartcarSensor_init_def Let_def)

text \<open>
  When the raw value is \<open>None\<close> the display value is \<open>None\<close>, returned normally:
  no conversion is called and nothing is raised, whatever the sensor.
\<close>

lemma extract_value_absent: "extract_value self PyNone = Inr PyNone"
  by (simp add: extract_value_def)

lemma SmartcarSensor_init_inj:
  "SmartcarSensor_init env c d = SmartcarSensor_init env c' d' \<longleftrightarrow> c = c' \<and> d = d'"
  by (metis SmartcarSensor_init_sel(1,2))

lemma async_setup_entry_set:
  "set (async_setup_entry env coordinators) =
     {SmartcarSensor_init env coord d | coord d.
        coord \<in> snd ` set coordinators \<and> d \<in> set (SENSOR_TYPES env) \<and>
        is_scope_enabled coord (key d) True}"
  by (auto simp: async_setup_entry_def)

lemma sample_use_imperial:
  "use_imperial (SmartcarSensor_init recording_env imperial_coordinator d) = PyBool True"
  "use_imperial (SmartcarSensor_init recording_env metric_coordinator d) = PyBool False"
  by (simp_all add: SmartcarSensor_init_sel dict_get_def recording_env_def
      imperial_coordinator_def metric_coordinator_def)

lemma recording_env_sel:
  "CONF_USE_IMPERIAL recording_env = ''use_imperial''"
  "DistanceConverter_convert recording_env v a b =
     Inr (PyList [PyStr ''DistanceConverter'', v, PyStr a, PyStr b])"
  "PressureConverter_convert recording_env v a b =
     Inr (PyList [PyStr ''PressureConverter'', v, PyStr a, PyStr b])"
  by (simp_all add: recording_env_def recording_convert_def)

lemma strict_env_sel:
  "CONF_USE_IMPERIAL strict_env = ''use_imperial''"
  "DistanceConverter_convert strict_env =
     strict_convert ''DistanceConverter'' [UnitOfLength_KILOMETERS, UnitOfLength_MILES]"
  "PressureConverter_convert strict_env =
     strict_convert ''PressureConverter'' [UnitOfPressure_KPA, UnitOfPressure_PSI]"
  by (simp_all add: strict_env_def)

lemma length_concat_if:
  "length (concat (map (\<lambda>x. if P x then [f x] else []) xs)) = length (filter P xs)"
  by (induction xs) simp_all

lemma sample_setup_mem:
  "SmartcarSensor_init recording_env imperial_coordinator (odometer_description recording_env)
     \<in> set (async_setup_entry recording_env
              [(''VIN1'', metric_coordinator), (''VIN2'', imperial_coordinator)])"
  "SmartcarSensor_init recording_env metric_coordinator (odometer_description recording_env)
     \<in> set (async_setup_entry recording_env
              [(''VIN1'', metric_coordinator), (''VIN2'', imperial_coordinator)])"
  unfolding async_setup_entry_set
  by (auto simp: description_mem description_sel metric_coordinator_def imperial_coordinator_def
      intro!: exI)

subsection \<open>Strings\<close>

lemma str_lower_append: "str_lower (xs @ ys) = str_lower xs @ str_lower ys"
  by (simp add: str_lower_def)

lemma str_lower_join:
  "str_lower (str_join sep xs) = str_join (str_lower sep) (map str_lower xs)"
  by (induction sep xs rule: str_join.induct) (simp_all add: str_lower_append, simp add: str_lower_def)

lemma sort_eq_of_same_keys:
  fixes xs ys :: "string list"
  assumes "distinct xs" "distinct ys" "set xs = set ys"
  shows "sort xs = sort ys"
  using assms by (intro sorted_distinct_set_unique) simp_all

lemma str_lower_examples:
  "str_lower ''a'' = ''a''" "str_lower ''A'' = ''a''" "str_lower ''b'' = ''b''" "str_lower ''B'' = ''b''"
  "str_lower ''VIN1'' = ''vin1''" "str_lower ''VIN2'' = ''vin2''"
  "str_lower ''vin1'' = ''vin1''" "str_lower ''vin2'' = ''vin2''"
  by code_simp+

text \<open>Lower-casing beyond the ASCII letters, and an identifier with such a key.\<close>

lemma str_lower_latin1_examples:
  "str_lower [CHR 0xC9] = [CHR 0xE9]"
  "str_lower [CHR 0xD7] = [CHR 0xD7]"
  "str_lower [CHR 0xDE] = [CHR 0xFE]"
  "str_lower [CHR 0xDF] = [CHR 0xDF]"
  "str_lower ''AZ az@['' = ''az az@[''"
  by code_simp+

lemma unique_id_latin1_example:
  "unique_id_from_entry_data
     [(''vehicles'', PyDict [([CHR 0xC9], PyDict []), (''z'', PyDict [])])]
   = Inr [CHR ''z'', CHR '' '', CHR 0xE9]"
  by code_simp

lemma sort_examples:
  "sort [''a'', ''B''] = [''B'', ''a'']"
  "sort [''A'', ''b''] = [''A'', ''b'']"
  "sort [''VIN2'', ''VIN1''] = [''VIN1'', ''VIN2'']"
  "sort [''VIN1'', ''VIN2''] = [''VIN1'', ''VIN2'']"
  "sort [''vin1'', ''vin2''] = [''vin1'', ''vin2'']"
  by code_simp+

section \<open>Display value\<close>

text \<open>
  C1. For every sensor and every cached value other than \<open>None\<close>: the display value is
  the result of \<open>from_native_conversion\<close> (metric to imperial) when the imperial
  preference is true and that conversion is defined; it is the result of
  \<open>to_native_conversion\<close> (imperial to metric) when the preference is false and that
  conversion is defined; in the two remaining cases the value is returned unchanged.
\<close>

theorem extract_value_conversion_choice:
  assumes "raw \<noteq> PyNone"
  shows "(truthy (use_imperial self) \<and> from_native_conversion (entity_description self) = Some f
            \<longrightarrow> extract_value self raw = f raw)
       \<and> (\<not> truthy (use_imperial self) \<and> to_native_conversion (entity_description self) = Some g
            \<longrightarrow> extract_value self raw = g raw)
       \<and> (truthy (use_imperial self) \<and> from_native_conversion (entity_description self) = None
            \<longrightarrow> extract_value self raw = Inr raw)
       \<and> (\<not> truthy (use_imperial self) \<and> to_native_conversion (entity_description self) = None
            \<longrightarrow> extract_value self raw = Inr raw)"
  using assms by (simp add: extract_value_def)

text \<open>
  C1 at the odometer sensor with the value \<open>100\<close>: under the imperial preference the
  converter is called from kilometres to miles, under the metric preference from miles
  to kilometres; the charging state, which has no conversion, passes through.
\<close>

theorem extract_value_conversion_choice_witness:
  "PyInt 100 \<noteq> PyNone
   \<and> truthy (use_imperial (SmartcarSensor_init recording_env imperial_coordinator
                             (odometer_description recording_env)))
   \<and> extract_value (SmartcarSensor_init recording_env imperial_coordinator
                       (odometer_description recording_env)) (PyInt 100)
       = Inr (PyList [PyStr ''DistanceConverter'', PyInt 100, PyStr ''km'', PyStr ''mi''])
   \<and> \<not> truthy (use_imperial (SmartcarSensor_init recording_env metric_coordinator
                               (odometer_description recording_env)))
   \<and> extract_value (SmartcarSensor_init recording_env metric_coordinator
                       (odometer_description recording_env)) (PyInt 100)
       = Inr (PyList [PyStr ''DistanceConverter'', PyInt 100, PyStr ''mi'', PyStr ''km''])
   \<and> extract_value (SmartcarSensor_init recording_env metric_coordinator
                       (charging_state_description recording_env)) (PyStr ''CHARGING'')
       = Inr (PyStr ''CHARGING'')"
  using
    extract_value_conversion_choice [of "PyInt 100"
      "SmartcarSensor_init recording_env imperial_coordinator (odometer_description recording_env)"
      "\<lambda>v. DistanceConverter_convert recording_env v UnitOfLength_KILOMETERS UnitOfLength_MILES"
      "\<lambda>v. DistanceConverter_convert recording_env v UnitOfLength_MILES UnitOfLength_KILOMETERS"]
    extract_value_conversion_choice [of "PyInt 100"
      "SmartcarSensor_init recording_env metric_coordinator (odometer_description recording_env)"
      "\<lambda>v. DistanceConverter_convert recording_env v UnitOfLength_KILOMETERS UnitOfLength_MILES"
      "\<lambda>v. DistanceConverter_convert recording_env v UnitOfLength_MILES UnitOfLength_KILOMETERS"]
    extract_value_conversion_choice [of "PyStr ''CHARGING''"
      "SmartcarSensor_init recording_env metric_coordinator (charging_state_description recording_env)"]
  by (simp add: sample_use_imperial SmartcarSensor_init_sel(2) description_sel
      recording_env_sel unit_defs)

text \<open>
  C2, as stated, fails: the pairing the other way round does not hold. At the odometer
  sensor with the value \<open>100\<close>, \<open>to_native_conversion\<close> is the call from miles to
  kilometres and \<open>from_native_conversion\<close> the call from kilometres to miles; under
  the imperial preference the display value is the result of the second, under the metric
  preference that of the first.
\<close>

theorem conversion_direction_counterexample:
  "key (odometer_description recording_env) = ODOMETER
   \<and> to_native_conversion (odometer_description recording_env) \<noteq> None
   \<and> the (to_native_conversion (odometer_description recording_env)) (PyInt 100)
       = Inr (PyList [PyStr ''DistanceConverter'', PyInt 100, PyStr ''mi'', PyStr ''km''])
   \<and> from_native_conversion (odometer_description recording_env) \<noteq> None
   \<and> the (from_native_conversion (odometer_description recording_env)) (PyInt 100)
       = Inr (PyList [PyStr ''DistanceConverter'', PyInt 100, PyStr ''km'', PyStr ''mi''])
   \<and> use_imperial (SmartcarSensor_init recording_env imperial_coordinator
                      (odometer_description recording_env)) = PyBool True
   \<and> extract_value (SmartcarSensor_init recording_env imperial_coordinator
                       (odometer_description recording_env)) (PyInt 100)
       = Inr (PyList [PyStr ''DistanceConverter'', PyInt 100, PyStr ''km'', PyStr ''mi''])
   \<and> use_imperial (SmartcarSensor_init recording_env metric_coordinator
                      (odometer_description recording_env)) = PyBool False
   \<and> extract_value (SmartcarSensor_init recording_env metric_coordinator
                       (odometer_description recording_env)) (PyInt 100)
       = Inr (PyList [PyStr ''DistanceConverter'', PyInt 100, PyStr ''mi'', PyStr ''km''])"
  by (simp add: description_sel extract_value_def sample_use_imperial SmartcarSensor_init_sel(2)
      recording_env_sel unit_defs)

text \<open>
  C2 (amended). For every sensor whose description defines both conversions and every
  cached value other than \<open>None\<close>: when imperial display is requested the
  native-to-imperial conversion \<open>from_native_conversion\<close> is applied, and when metric
  display is requested the imperial-to-native conversion \<open>to_native_conversion\<close> is
  applied. For a description of the sensor table this is the host converter called from
  the native unit to the imperial unit in the first case and from the imperial unit to the
  native unit in the second.
\<close>

theorem conversion_direction:
  assumes "raw \<noteq> PyNone"
    and "from_native_conversion (entity_description self) = Some f"
    and "to_native_conversion (entity_description self) = Some g"
  shows "(truthy (use_imperial self) \<longrightarrow> extract_value self raw = f raw)
       \<and> (\<not> truthy (use_imperial self) \<longrightarrow> extract_value self raw = g raw)
       \<and> (entity_description self \<in> set (SENSOR_TYPES env) \<longrightarrow>
            (\<exists>convert native imperial.
               (convert = DistanceConverter_convert env \<or> convert = PressureConverter_convert env)
               \<and> native_unit_of_measurement (entity_description self) = Some native
               \<and> imperial_unit_of_measurement (entity_description self) = Some imperial
               \<and> extract_value self raw =
                   (if truthy (use_imperial self) then convert raw native imperial
                    else convert raw imperial native)))"
proof (intro conjI impI)
  show "truthy (use_imperial self) \<Longrightarrow> extract_value self raw = f raw"
    using assms by (simp add: extract_value_def)
  show "\<not> truthy (use_imperial self) \<Longrightarrow> extract_value self raw = g raw"
    using assms by (simp add: extract_value_def)
next
  assume "entity_description self \<in> set (SENSOR_TYPES env)"
  from SENSOR_TYPES_conversions[OF this assms(2,3)]
  obtain convert native imperial where
    c: "convert = DistanceConverter_convert env \<or> convert = PressureConverter_convert env"
    and u: "native_unit_of_measurement (entity_description self) = Some native"
       "imperial_unit_of_measurement (entity_description self) = Some imperial"
    and fg: "f = (\<lambda>v. convert v native imperial)" "g = (\<lambda>v. convert v imperial native)"
    by blast
  have "extract_value self raw =
          (if truthy (use_imperial self) then convert raw native imperial
           else convert raw imperial native)"
    using assms fg by (simp add: extract_value_def)
  with c u show "\<exists>convert native imperial.
               (convert = DistanceConverter_convert env \<or> convert = PressureConverter_convert env)
               \<and> native_unit_of_measurement (entity_description self) = Some native
               \<and> imperial_unit_of_measurement (entity_description self) = Some imperial
               \<and> extract_value self raw =
                   (if truthy (use_imperial self) then convert raw native imperial
                    else convert raw imperial native)"
    by blast
qed

theorem conversion_direction_witness:
  "PyFloat (Finite 250) \<noteq> PyNone
   \<and> from_native_conversion (odometer_description recording_env) =
       Some (\<lambda>v. DistanceConverter_convert recording_env v UnitOfLength_KILOMETERS UnitOfLength_MILES)
   \<and> to_native_conversion (odometer_description recording_env) =
       Some (\<lambda>v. DistanceConverter_convert recording_env v UnitOfLength_MILES UnitOfLength_KILOMETERS)
   \<and> odometer_description recording_env \<in> set (SENSOR_TYPES recording_env)
   \<and> truthy (use_imperial (SmartcarSensor_init recording_env imperial_coordinator
                             (odometer_description recording_env)))
   \<and> extract_value (SmartcarSensor_init recording_env imperial_coordinator
                       (odometer_description recording_env)) (PyFloat (Finite 250))
       = DistanceConverter_convert recording_env (PyFloat (Finite 250))
           UnitOfLength_KILOMETERS UnitOfLength_MILES"
  using conversion_direction [of "PyFloat (Finite 250)"
      "SmartcarSensor_init recording_env imperial_coordinator (odometer_description recording_env)"
      "\<lambda>v. DistanceConverter_convert recording_env v UnitOfLength_KILOMETERS UnitOfLength_MILES"
      "\<lambda>v. DistanceConverter_convert recording_env v UnitOfLength_MILES UnitOfLength_KILOMETERS"
      recording_env]
  by (simp add: sample_use_imperial SmartcarSensor_init_sel(2) description_sel description_mem)

text \<open>
  C7. For every sensor whose description defines neither \<open>to_native_conversion\<close> nor
  \<open>from_native_conversion\<close> (the charging state is one), the display value is the
  cached value unchanged, whatever the imperial preference is set to.
\<close>

theorem extract_value_no_conversions:
  assumes "to_native_conversion (entity_description self) = None"
    and "from_native_conversion (entity_description self) = None"
  shows "extract_value (self\<lparr>use_imperial := flag\<rparr>) raw = Inr raw"
  using assms by (simp add: extract_value_def)

theorem extract_value_no_conversions_witness:
  "to_native_conversion (entity_description
      (SmartcarSensor_init recording_env metric_coordinator
         (charging_state_description recording_env))) = None
   \<and> from_native_conversion (entity_description
      (SmartcarSensor_init recording_env metric_coordinator
         (charging_state_description recording_env))) = None
   \<and> extract_value
        ((SmartcarSensor_init recording_env metric_coordinator
            (charging_state_description recording_env))\<lparr>use_imperial := PyBool True\<rparr>)
        (PyStr ''CHARGING'') = Inr (PyStr ''CHARGING'')
   \<and> extract_value
        ((SmartcarSensor_init recording_env metric_coordinator
            (charging_state_description recording_env))\<lparr>use_imperial := PyBool False\<rparr>)
        (PyStr ''CHARGING'') = Inr (PyStr ''CHARGING'')"
  using
    extract_value_no_conversions [of
      "SmartcarSensor_init recording_env metric_coordinator (charging_state_description recording_env)"
      "PyBool True" "PyStr ''CHARGING''"]
    extract_value_no_conversions [of
      "SmartcarSensor_init recording_env metric_coordinator (charging_state_description recording_env)"
      "PyBool False" "PyStr ''CHARGING''"]
  by (simp add: SmartcarSensor_init_sel(2) description_sel)

section \<open>Round trip of the conversions\<close>

text \<open>
  C4. Composing the two conversions of a description returns the original value only if
  both conversions return. Every description with conversions calls one converter with
  the two units swapped (\<open>SENSOR_TYPES_conversions\<close>), and every one but the fuel
  description hands its converter units of the converter's own kind: lengths to the
  distance converter, pressures to the pressure converter
  (\<open>SENSOR_TYPES_converter_units\<close>). The fuel description hands the volume units
  litres and gallons to the distance converter. When the distance converter rejects a
  volume unit, both fuel conversions raise on every value, and so does the display value
  of the fuel sensor for every cached value other than \<open>None\<close>, under either
  preference: there is no round trip for fuel.
\<close>

theorem fuel_conversions_rejected:
  assumes "\<forall>v a b. a \<in> {UnitOfVolume_LITERS, UnitOfVolume_GALLONS} \<and> a \<noteq> b
             \<longrightarrow> DistanceConverter_convert env v a b = Inl HomeAssistantError"
  shows "\<exists>f g. from_native_conversion (fuel_description env) = Some f
           \<and> to_native_conversion (fuel_description env) = Some g
           \<and> (\<forall>v. f v = Inl HomeAssistantError \<and> g v = Inl HomeAssistantError)
           \<and> (\<forall>self raw. entity_description self = fuel_description env \<and> raw \<noteq> PyNone
                 \<longrightarrow> extract_value self raw = Inl HomeAssistantError)"
proof -
  have u: "UnitOfVolume_LITERS \<noteq> UnitOfVolume_GALLONS"
    by (simp add: unit_defs)
  have f: "DistanceConverter_convert env v UnitOfVolume_LITERS UnitOfVolume_GALLONS
             = Inl HomeAssistantError"
    and g: "DistanceConverter_convert env v UnitOfVolume_GALLONS UnitOfVolume_LITERS
             = Inl HomeAssistantError" for v
    using assms u by auto
  have "extract_value self raw = Inl HomeAssistantError"
    if "entity_description self = fuel_description env" "raw \<noteq> PyNone" for self raw
    using that by (simp add: extract_value_def fuel_sel f g)
  then show ?thesis
    using f g by (auto simp: fuel_sel)
qed

theorem fuel_conversions_rejected_witness:
  "DistanceConverter_convert strict_env (PyFloat (Finite 40)) UnitOfVolume_LITERS UnitOfVolume_GALLONS
     = Inl HomeAssistantError
   \<and> DistanceConverter_convert strict_env (PyFloat (Finite 40)) UnitOfVolume_GALLONS UnitOfVolume_LITERS
     = Inl HomeAssistantError
   \<and> entity_description (SmartcarSensor_init strict_env imperial_coordinator (fuel_description strict_env))
       = fuel_description strict_env
   \<and> PyFloat (Finite 40) \<noteq> PyNone
   \<and> extract_value (SmartcarSensor_init strict_env imperial_coordinator (fuel_description strict_env))
        (PyFloat (Finite 40)) = Inl HomeAssistantError
   \<and> extract_value (SmartcarSensor_init strict_env metric_coordinator (fuel_description strict_env))
        (PyFloat (Finite 40)) = Inl HomeAssistantError"
proof -
  have h: "\<forall>v a b. a \<in> {UnitOfVolume_LITERS, UnitOfVolume_GALLONS} \<and> a \<noteq> b
       \<longrightarrow> DistanceConverter_convert strict_env v a b = Inl HomeAssistantError"
    by (auto simp: strict_env_sel strict_convert_def unit_defs)
  from fuel_conversions_rejected [OF h]
  have r: "extract_value self raw = Inl HomeAssistantError"
    if "entity_description self = fuel_description strict_env" "raw \<noteq> PyNone" for self raw
    using that by blast
  have u: "UnitOfVolume_LITERS \<noteq> UnitOfVolume_GALLONS"
    by (simp add: unit_defs)
  from h u u[symmetric]
  have "DistanceConverter_convert strict_env (PyFloat (Finite 40))
          UnitOfVolume_LITERS UnitOfVolume_GALLONS = Inl HomeAssistantError"
    and "DistanceConverter_convert strict_env (PyFloat (Finite 40))
          UnitOfVolume_GALLONS UnitOfVolume_LITERS = Inl HomeAssistantError"
    by blast+
  then show ?thesis
    by (simp add: r SmartcarSensor_init_sel(2))
qed

section \<open>Absent and failing values\<close>

text \<open>
  C3. For every sensor an absent value (the raw value is \<open>None\<close>) gives the display
  value \<open>None\<close> without an error (\<open>extract_value_absent\<close>). Absence is meant to be
  the only failure, and it is not: the fuel sensor that setup creates for a coordinator
  with the fuel scope hands its value to the distance converter with volume units, so
  when the distance converter rejects a volume unit the display value of that sensor is
  the error \<open>HomeAssistantError\<close> for every cached value that is present, while its
  absent value still gives \<open>None\<close>.
\<close>

theorem present_fuel_value_raises:
  assumes "\<forall>v a b. a \<in> {UnitOfVolume_LITERS, UnitOfVolume_GALLONS} \<and> a \<noteq> b
             \<longrightarrow> DistanceConverter_convert env v a b = Inl HomeAssistantError"
    and "coord \<in> snd ` set coordinators"
    and "is_scope_enabled coord FUEL True"
  shows "SmartcarSensor_init env coord (fuel_description env)
           \<in> set (async_setup_entry env coordinators)
       \<and> extract_value (SmartcarSensor_init env coord (fuel_description env)) PyNone = Inr PyNone
       \<and> (\<forall>raw. raw \<noteq> PyNone \<longrightarrow>
             extract_value (SmartcarSensor_init env coord (fuel_description env)) raw
               = Inl HomeAssistantError)"
proof (intro conjI allI impI)
  show "SmartcarSensor_init env coord (fuel_description env)
           \<in> set (async_setup_entry env coordinators)"
  proof -
    have "fuel_description env \<in> set (SENSOR_TYPES env)"
      by (rule description_mem)
    moreover have "is_scope_enabled coord (key (fuel_description env)) True"
      using assms(3) by (simp add: description_sel)
    ultimately show ?thesis
      unfolding async_setup_entry_set using assms(2) by blast
  qed
  show "extract_value (SmartcarSensor_init env coord (fuel_description env)) PyNone = Inr PyNone"
    by (rule extract_value_absent)
next
  fix raw assume raw: "raw \<noteq> PyNone"
  have u: "UnitOfVolume_LITERS \<noteq> UnitOfVolume_GALLONS"
    by (simp add: unit_defs)
  have f: "DistanceConverter_convert env raw UnitOfVolume_LITERS UnitOfVolume_GALLONS
             = Inl HomeAssistantError"
    and g: "DistanceConverter_convert env raw UnitOfVolume_GALLONS UnitOfVolume_LITERS
             = Inl HomeAssistantError"
    using assms(1) u by auto
  show "extract_value (SmartcarSensor_init env coord (fuel_description env)) raw
          = Inl HomeAssistantError"
    using raw by (simp add: extract_value_def SmartcarSensor_init_sel(2) fuel_sel f g)
qed

theorem present_fuel_value_raises_witness:
  "DistanceConverter_convert strict_env (PyFloat (Finite 12)) UnitOfVolume_LITERS UnitOfVolume_GALLONS
     = Inl HomeAssistantError
   \<and> imperial_coordinator \<in> snd ` set [(''VIN2'', imperial_coordinator)]
   \<and> is_scope_enabled imperial_coordinator FUEL True
   \<and> SmartcarSensor_init strict_env imperial_coordinator (fuel_description strict_env)
        \<in> set (async_setup_entry strict_env [(''VIN2'', imperial_coordinator)])
   \<and> extract_value (SmartcarSensor_init strict_env imperial_coordinator (fuel_description strict_env))
        PyNone = Inr PyNone
   \<and> PyFloat (Finite 12) \<noteq> PyNone
   \<and> extract_value (SmartcarSensor_init strict_env imperial_coordinator (fuel_description strict_env))
        (PyFloat (Finite 12)) = Inl HomeAssistantError"
proof -
  have h: "\<forall>v a b. a \<in> {UnitOfVolume_LITERS, UnitOfVolume_GALLONS} \<and> a \<noteq> b
       \<longrightarrow> DistanceConverter_convert strict_env v a b = Inl HomeAssistantError"
    by (auto simp: strict_env_sel strict_convert_def unit_defs)
  have c: "imperial_coordinator \<in> snd ` set [(''VIN2'', imperial_coordinator)]"
    by simp
  have e: "is_scope_enabled imperial_coordinator FUEL True"
    by (simp add: imperial_coordinator_def)
  have u: "UnitOfVolume_LITERS \<noteq> UnitOfVolume_GALLONS"
    by (simp add: unit_defs)
  from h u have d: "DistanceConverter_convert strict_env (PyFloat (Finite 12))
      UnitOfVolume_LITERS UnitOfVolume_GALLONS = Inl HomeAssistantError"
    by blast
  from present_fuel_value_raises [OF h c e]
  have "SmartcarSensor_init strict_env imperial_coordinator (fuel_description strict_env)
          \<in> set (async_setup_entry strict_env [(''VIN2'', imperial_coordinator)])"
    and "extract_value (SmartcarSensor_init strict_env imperial_coordinator
          (fuel_description strict_env)) PyNone = Inr PyNone"
    and "extract_value (SmartcarSensor_init strict_env imperial_coordinator
          (fuel_description strict_env)) (PyFloat (Finite 12)) = Inl HomeAssistantError"
    by simp_all
  with c e d show ?thesis
    by simp
qed

section \<open>Value transform\<close>

text \<open>
  C6. The descriptions with a value transform are the battery level and the fuel percent,
  in this order; for each of them the transform maps the float \<open>0.42\<close> to the integer
  \<open>42\<close> and \<open>None\<close> to \<open>None\<close>.
\<close>

theorem fraction_to_percentage_examples:
  "map key (filter (\<lambda>d. value_cast d \<noteq> None) (SENSOR_TYPES env)) = [BATTERY_LEVEL, FUEL_PERCENT]
   \<and> (\<forall>d \<in> set (SENSOR_TYPES env). \<forall>cast. value_cast d = Some cast \<longrightarrow>
         cast (PyFloat (binary64_round (42 / 100))) = Inr (PyInt 42)
         \<and> cast PyNone = Inr PyNone)"
proof (intro conjI ballI allI impI)
  show "map key (filter (\<lambda>d. value_cast d \<noteq> None) (SENSOR_TYPES env)) = [BATTERY_LEVEL, FUEL_PERCENT]"
    by (simp add: SENSOR_TYPES_def)
next
  fix d cast
  assume "d \<in> set (SENSOR_TYPES env)" "value_cast d = Some cast"
  then have c: "cast = pct_value_cast"
    using SENSOR_TYPES_value_cast by blast
  show "cast (PyFloat (binary64_round (42 / 100))) = Inr (PyInt 42)"
    unfolding c by (rule pct_value_cast_042)
  show "cast PyNone = Inr PyNone"
    unfolding c by (simp add: pct_value_cast_falsy)
qed

theorem fraction_to_percentage_examples_witness:
  "battery_level_description recording_env \<in> set (SENSOR_TYPES recording_env)
   \<and> value_cast (battery_level_description recording_env) = Some pct_value_cast
   \<and> pct_value_cast (PyFloat (binary64_round (42 / 100))) = Inr (PyInt 42)
   \<and> pct_value_cast PyNone = Inr PyNone"
proof -
  have m: "battery_level_description recording_env \<in> set (SENSOR_TYPES recording_env)"
    by (rule description_mem)
  have v: "value_cast (battery_level_description recording_env) = Some pct_value_cast"
    by (rule description_sel)
  from fraction_to_percentage_examples [of recording_env]
  have "\<forall>d \<in> set (SENSOR_TYPES recording_env). \<forall>cast. value_cast d = Some cast \<longrightarrow>
         cast (PyFloat (binary64_round (42 / 100))) = Inr (PyInt 42)
         \<and> cast PyNone = Inr PyNone"
    by (rule conjunct2)
  with m v have "pct_value_cast (PyFloat (binary64_round (42 / 100))) = Inr (PyInt 42)
         \<and> pct_value_cast PyNone = Inr PyNone"
    by blast
  with m v show ?thesis by simp
qed

text \<open>
  C10. For the battery level and the fuel percent, the transform
  \<open>lambda pct: pct and round(pct * 100)\<close> returns a false input as it is: \<open>None\<close>
  gives \<open>None\<close>, the integer \<open>0\<close> gives \<open>0\<close> and the float \<open>0.0\<close> gives
  \<open>0.0\<close>, without scaling or rounding; the product with 100 is rounded for the true
  inputs only.
\<close>

theorem fraction_to_percentage_falsy:
  "\<forall>d \<in> set (SENSOR_TYPES env). \<forall>cast. value_cast d = Some cast \<longrightarrow>
      (\<forall>v. \<not> truthy v \<longrightarrow> cast v = Inr v)
      \<and> cast PyNone = Inr PyNone
      \<and> cast (PyInt 0) = Inr (PyInt 0)
      \<and> cast (PyFloat (Finite 0)) = Inr (PyFloat (Finite 0))
      \<and> (\<forall>v. truthy v \<longrightarrow>
            cast v = (case py_mul_int v 100 of Inl e \<Rightarrow> Inl e | Inr p \<Rightarrow> py_round p))"
proof (intro ballI allI impI)
  fix d cast
  assume "d \<in> set (SENSOR_TYPES env)" "value_cast d = Some cast"
  then have c: "cast = pct_value_cast"
    using SENSOR_TYPES_value_cast by blast
  show "(\<forall>v. \<not> truthy v \<longrightarrow> cast v = Inr v)
      \<and> cast PyNone = Inr PyNone
      \<and> cast (PyInt 0) = Inr (PyInt 0)
      \<and> cast (PyFloat (Finite 0)) = Inr (PyFloat (Finite 0))
      \<and> (\<forall>v. truthy v \<longrightarrow>
            cast v = (case py_mul_int v 100 of Inl e \<Rightarrow> Inl e | Inr p \<Rightarrow> py_round p))"
    unfolding c by (simp add: pct_value_cast_falsy pct_value_cast_truthy)
qed

theorem fraction_to_percentage_falsy_witness:
  "battery_level_description recording_env \<in> set (SENSOR_TYPES recording_env)
   \<and> value_cast (battery_level_description recording_env) = Some pct_value_cast
   \<and> \<not> truthy (PyFloat NegZero)
   \<and> pct_value_cast (PyFloat NegZero) = Inr (PyFloat NegZero)
   \<and> pct_value_cast (PyInt 0) = Inr (PyInt 0)
   \<and> pct_value_cast (PyFloat (Finite 0)) = Inr (PyFloat (Finite 0))
   \<and> pct_value_cast PyNone = Inr PyNone
   \<and> truthy (PyInt 1)
   \<and> pct_value_cast (PyInt 1) = Inr (PyInt 100)"
proof -
  have m: "battery_level_description recording_env \<in> set (SENSOR_TYPES recording_env)"
    by (rule description_mem)
  have v: "value_cast (battery_level_description recording_env) = Some pct_value_cast"
    by (rule description_sel)
  from fraction_to_percentage_falsy [of recording_env] m v
  have "(\<forall>v. \<not> truthy v \<longrightarrow> pct_value_cast v = Inr v)
      \<and> pct_value_cast PyNone = Inr PyNone
      \<and> pct_value_cast (PyInt 0) = Inr (PyInt 0)
      \<and> pct_value_cast (PyFloat (Finite 0)) = Inr (PyFloat (Finite 0))
      \<and> (\<forall>v. truthy v \<longrightarrow>
            pct_value_cast v = (case py_mul_int v 100 of Inl e \<Rightarrow> Inl e | Inr p \<Rightarrow> py_round p))"
    by blast
  then have "pct_value_cast (PyFloat NegZero) = Inr (PyFloat NegZero)"
    and "pct_value_cast PyNone = Inr PyNone"
    and "pct_value_cast (PyInt 0) = Inr (PyInt 0)"
    and "pct_value_cast (PyFloat (Finite 0)) = Inr (PyFloat (Finite 0))"
    and "pct_value_cast (PyInt 1) = Inr (PyInt 100)"
    by simp_all
  with m v show ?thesis by simp
qed

section \<open>Unit of measurement and setup\<close>

text \<open>
  C8. The unit of a sensor is set by \<open>__init__\<close>: the imperial unit of the
  description when the imperial preference read from the configuration is true and the
  imperial unit is neither \<open>None\<close> nor empty, the native unit otherwise. For every
  entity that setup creates, whose description comes from the sensor table, this is the
  imperial unit exactly when the preference is true and the description defines an
  imperial unit, and the native unit in every other case. Reading the display value
  returns a value only, so the unit stays as constructed.
\<close>

theorem unit_of_measurement_choice:
  "attr_native_unit_of_measurement (SmartcarSensor_init env coord d) =
     (if truthy (dict_get (config_entry_data coord) (CONF_USE_IMPERIAL env) (PyBool False))
         \<and> truthy_str (imperial_unit_of_measurement d)
      then imperial_unit_of_measurement d
      else native_unit_of_measurement d)
   \<and> (\<forall>e \<in> set (async_setup_entry env coordinators).
        use_imperial e =
          dict_get (config_entry_data (coordinator e)) (CONF_USE_IMPERIAL env) (PyBool False)
        \<and> attr_native_unit_of_measurement e =
          (if truthy (use_imperial e) \<and> imperial_unit_of_measurement (entity_description e) \<noteq> None
           then imperial_unit_of_measurement (entity_description e)
           else native_unit_of_measurement (entity_description e)))"
proof (intro conjI ballI)
  show "attr_native_unit_of_measurement (SmartcarSensor_init env coord d) =
     (if truthy (dict_get (config_entry_data coord) (CONF_USE_IMPERIAL env) (PyBool False))
         \<and> truthy_str (imperial_unit_of_measurement d)
      then imperial_unit_of_measurement d
      else native_unit_of_measurement d)"
    by (simp add: SmartcarSensor_init_def Let_def)
next
  fix e assume "e \<in> set (async_setup_entry env coordinators)"
  then obtain coord d where e: "e = SmartcarSensor_init env coord d"
    and d: "d \<in> set (SENSOR_TYPES env)"
    unfolding async_setup_entry_set by blast
  show "use_imperial e =
          dict_get (config_entry_data (coordinator e)) (CONF_USE_IMPERIAL env) (PyBool False)"
    by (simp add: e SmartcarSensor_init_sel)
  show "attr_native_unit_of_measurement e =
          (if truthy (use_imperial e) \<and> imperial_unit_of_measurement (entity_description e) \<noteq> None
           then imperial_unit_of_measurement (entity_description e)
           else native_unit_of_measurement (entity_description e))"
    using SENSOR_TYPES_imperial_unit[OF d]
    by (auto simp: e SmartcarSensor_init_def Let_def)
qed

theorem unit_of_measurement_choice_witness:
  "SmartcarSensor_init recording_env imperial_coordinator (odometer_description recording_env)
     \<in> set (async_setup_entry recording_env
              [(''VIN1'', metric_coordinator), (''VIN2'', imperial_coordinator)])
   \<and> attr_native_unit_of_measurement
        (SmartcarSensor_init recording_env imperial_coordinator (odometer_description recording_env))
       = Some UnitOfLength_MILES
   \<and> SmartcarSensor_init recording_env metric_coordinator (odometer_description recording_env)
     \<in> set (async_setup_entry recording_env
              [(''VIN1'', metric_coordinator), (''VIN2'', imperial_coordinator)])
   \<and> attr_native_unit_of_measurement
        (SmartcarSensor_init recording_env metric_coordinator (odometer_description recording_env))
       = Some UnitOfLength_KILOMETERS"
proof -
  let ?cs = "[(''VIN1'', metric_coordinator), (''VIN2'', imperial_coordinator)]"
  let ?i = "SmartcarSensor_init recording_env imperial_coordinator (odometer_description recording_env)"
  let ?m = "SmartcarSensor_init recording_env metric_coordinator (odometer_description recording_env)"
  from unit_of_measurement_choice [of recording_env imperial_coordinator
      "odometer_description recording_env" ?cs]
  have all: "\<forall>e \<in> set (async_setup_entry recording_env ?cs).
        use_imperial e =
          dict_get (config_entry_data (coordinator e)) (CONF_USE_IMPERIAL recording_env) (PyBool False)
        \<and> attr_native_unit_of_measurement e =
          (if truthy (use_imperial e) \<and> imperial_unit_of_measurement (entity_description e) \<noteq> None
           then imperial_unit_of_measurement (entity_description e)
           else native_unit_of_measurement (entity_description e))"
    by (rule conjunct2)
  have i: "attr_native_unit_of_measurement ?i = Some UnitOfLength_MILES"
    using bspec [OF all sample_setup_mem(1)]
    by (simp add: sample_use_imperial SmartcarSensor_init_sel(2) description_sel)
  have m: "attr_native_unit_of_measurement ?m = Some UnitOfLength_KILOMETERS"
    using bspec [OF all sample_setup_mem(2)]
    by (simp add: sample_use_imperial SmartcarSensor_init_sel(2) description_sel)
  show ?thesis
    using i m sample_setup_mem by simp
qed

text \<open>
  C9. Setup hands over, for every coordinator of the entry and every description, the
  entity of that coordinator and description if and only if the description is in
  \<open>SENSOR_TYPES\<close> and the coordinator's \<open>is_scope_enabled\<close> is true for its key;
  every entity handed over is built from a coordinator of the entry and a description of
  \<open>SENSOR_TYPES\<close> whose scope is enabled, and there is one entity for each enabled
  pair.
\<close>

theorem setup_entities_iff_scope_enabled:
  "(\<forall>coord \<in> snd ` set coordinators. \<forall>d.
      (SmartcarSensor_init env coord d \<in> set (async_setup_entry env coordinators))
        = (d \<in> set (SENSOR_TYPES env) \<and> is_scope_enabled coord (key d) True))
   \<and> (\<forall>e \<in> set (async_setup_entry env coordinators).
        e = SmartcarSensor_init env (coordinator e) (entity_description e)
        \<and> coordinator e \<in> snd ` set coordinators
        \<and> entity_description e \<in> set (SENSOR_TYPES env)
        \<and> is_scope_enabled (coordinator e) (key (entity_description e)) True)
   \<and> length (async_setup_entry env coordinators) =
       (\<Sum>coord \<leftarrow> map snd coordinators.
          length (filter (\<lambda>d. is_scope_enabled coord (key d) True) (SENSOR_TYPES env)))"
proof (intro conjI)
  show "\<forall>coord \<in> snd ` set coordinators. \<forall>d.
      (SmartcarSensor_init env coord d \<in> set (async_setup_entry env coordinators))
        = (d \<in> set (SENSOR_TYPES env) \<and> is_scope_enabled coord (key d) True)"
    unfolding async_setup_entry_set
    by (force simp: SmartcarSensor_init_inj)
  show "\<forall>e \<in> set (async_setup_entry env coordinators).
        e = SmartcarSensor_init env (coordinator e) (entity_description e)
        \<and> coordinator e \<in> snd ` set coordinators
        \<and> entity_description e \<in> set (SENSOR_TYPES env)
        \<and> is_scope_enabled (coordinator e) (key (entity_description e)) True"
    unfolding async_setup_entry_set
    by (force simp: SmartcarSensor_init_sel)
  show "length (async_setup_entry env coordinators) =
       (\<Sum>coord \<leftarrow> map snd coordinators.
          length (filter (\<lambda>d. is_scope_enabled coord (key d) True) (SENSOR_TYPES env)))"
    by (induction coordinators) (simp_all add: async_setup_entry_def length_concat_if)
qed

theorem setup_entities_iff_scope_enabled_witness:
  "metric_coordinator \<in> snd ` set [(''VIN1'', metric_coordinator)]
   \<and> odometer_description recording_env \<in> set (SENSOR_TYPES recording_env)
   \<and> is_scope_enabled metric_coordinator (key (odometer_description recording_env)) True
   \<and> SmartcarSensor_init recording_env metric_coordinator (odometer_description recording_env)
        \<in> set (async_setup_entry recording_env [(''VIN1'', metric_coordinator)])
   \<and> fuel_description recording_env \<in> set (SENSOR_TYPES recording_env)
   \<and> \<not> is_scope_enabled metric_coordinator (key (fuel_description recording_env)) True
   \<and> SmartcarSensor_init recording_env metric_coordinator (fuel_description recording_env)
        \<notin> set (async_setup_entry recording_env [(''VIN1'', metric_coordinator)])"
proof -
  have c: "metric_coordinator \<in> snd ` set [(''VIN1'', metric_coordinator)]"
    by simp
  have o: "is_scope_enabled metric_coordinator (key (odometer_description recording_env)) True"
    and f: "\<not> is_scope_enabled metric_coordinator (key (fuel_description recording_env)) True"
    by (simp_all add: metric_coordinator_def description_sel)
  from setup_entities_iff_scope_enabled [of "[(''VIN1'', metric_coordinator)]" recording_env] c
  have iff: "(SmartcarSensor_init recording_env metric_coordinator d
               \<in> set (async_setup_entry recording_env [(''VIN1'', metric_coordinator)]))
        = (d \<in> set (SENSOR_TYPES recording_env) \<and> is_scope_enabled metric_coordinator (key d) True)"
    for d
    by blast
  show ?thesis
    using c o f by (simp add: iff description_mem)
qed

section \<open>Unique identifier\<close>

text \<open>
  Two entry-data mappings whose vehicle records have the same set of keys have the same
  unique identifier, whatever the insertion order of the records; and two mappings whose
  sorted key lists are equal, position by position, up to character case have the same
  unique identifier.
\<close>

lemma unique_id_stable:
  assumes "map_of data1 ''vehicles'' = Some (PyDict vehicles1)"
    and "map_of data2 ''vehicles'' = Some (PyDict vehicles2)"
  shows "(distinct (map fst vehicles1) \<and> distinct (map fst vehicles2)
            \<and> set (map fst vehicles1) = set (map fst vehicles2)
          \<longrightarrow> unique_id_from_entry_data data1 = unique_id_from_entry_data data2)
       \<and> (map str_lower (sort (map fst vehicles1)) = map str_lower (sort (map fst vehicles2))
          \<longrightarrow> unique_id_from_entry_data data1 = unique_id_from_entry_data data2)"
proof (intro conjI impI)
  assume "distinct (map fst vehicles1) \<and> distinct (map fst vehicles2)
            \<and> set (map fst vehicles1) = set (map fst vehicles2)"
  then have "sort (map fst vehicles1) = sort (map fst vehicles2)"
    by (intro sort_eq_of_same_keys) simp_all
  then show "unique_id_from_entry_data data1 = unique_id_from_entry_data data2"
    using assms by (simp add: unique_id_from_entry_data_def)
next
  assume "map str_lower (sort (map fst vehicles1)) = map str_lower (sort (map fst vehicles2))"
  then show "unique_id_from_entry_data data1 = unique_id_from_entry_data data2"
    using assms by (simp add: unique_id_from_entry_data_def str_lower_join)
qed

lemma unique_id_stable_example:
  "map_of [(''vehicles'', PyDict [(''VIN2'', PyDict []), (''VIN1'', PyDict [])])] ''vehicles''
     = Some (PyDict [(''VIN2'', PyDict []), (''VIN1'', PyDict [])])
   \<and> map_of [(''vehicles'', PyDict [(''VIN1'', PyDict []), (''VIN2'', PyDict [])])] ''vehicles''
     = Some (PyDict [(''VIN1'', PyDict []), (''VIN2'', PyDict [])])
   \<and> distinct (map fst [(''VIN2'', PyDict []), (''VIN1'', PyDict [])])
   \<and> distinct (map fst [(''VIN1'', PyDict []), (''VIN2'', PyDict [])])
   \<and> set (map fst [(''VIN2'', PyDict []), (''VIN1'', PyDict [])])
       = set (map fst [(''VIN1'', PyDict []), (''VIN2'', PyDict [])])
   \<and> unique_id_from_entry_data [(''vehicles'', PyDict [(''VIN2'', PyDict []), (''VIN1'', PyDict [])])]
       = unique_id_from_entry_data [(''vehicles'', PyDict [(''VIN1'', PyDict []), (''VIN2'', PyDict [])])]
   \<and> map_of [(''vehicles'', PyDict [(''vin1'', PyDict []), (''vin2'', PyDict [])])] ''vehicles''
     = Some (PyDict [(''vin1'', PyDict []), (''vin2'', PyDict [])])
   \<and> map str_lower (sort (map fst [(''VIN1'', PyDict []), (''VIN2'', PyDict [])]))
       = map str_lower (sort (map fst [(''vin1'', PyDict []), (''vin2'', PyDict [])]))
   \<and> unique_id_from_entry_data [(''vehicles'', PyDict [(''VIN1'', PyDict []), (''VIN2'', PyDict [])])]
       = unique_id_from_entry_data [(''vehicles'', PyDict [(''vin1'', PyDict []), (''vin2'', PyDict [])])]"
  using
    unique_id_stable [of
      "[(''vehicles'', PyDict [(''VIN2'', PyDict []), (''VIN1'', PyDict [])])]"
      "[(''VIN2'', PyDict []), (''VIN1'', PyDict [])]"
      "[(''vehicles'', PyDict [(''VIN1'', PyDict []), (''VIN2'', PyDict [])])]"
      "[(''VIN1'', PyDict []), (''VIN2'', PyDict [])]"]
    unique_id_stable [of
      "[(''vehicles'', PyDict [(''VIN1'', PyDict []), (''VIN2'', PyDict [])])]"
      "[(''VIN1'', PyDict []), (''VIN2'', PyDict [])]"
      "[(''vehicles'', PyDict [(''vin1'', PyDict []), (''vin2'', PyDict [])])]"
      "[(''vin1'', PyDict []), (''vin2'', PyDict [])]"]
  by (auto simp: sort_examples str_lower_examples)

text \<open>
  C5. The unique identifier is meant to depend on the set of keys up to character case
  only. The order of insertion does not matter (\<open>unique_id_stable\<close>), but the case
  does: the keys are sorted as they are and the joined string is lower-cased afterwards.
  The key sets \<open>{a, B}\<close> and \<open>{A, b}\<close> are equal up to case, and their identifiers
  are \<open>b a\<close> and \<open>a b\<close>.
\<close>

theorem unique_id_not_case_insensitive:
  "str_lower ` set (map fst [(''a'', PyDict []), (''B'', PyDict [])])
     = str_lower ` set (map fst [(''A'', PyDict []), (''b'', PyDict [])])
   \<and> unique_id_from_entry_data [(''vehicles'', PyDict [(''a'', PyDict []), (''B'', PyDict [])])]
       = Inr ''b a''
   \<and> unique_id_from_entry_data [(''vehicles'', PyDict [(''A'', PyDict []), (''b'', PyDict [])])]
       = Inr ''a b''"
proof (intro conjI)
  show "str_lower ` set (map fst [(''a'', PyDict []), (''B'', PyDict [])])
     = str_lower ` set (map fst [(''A'', PyDict []), (''b'', PyDict [])])"
    by (simp add: str_lower_examples)
  show "unique_id_from_entry_data [(''vehicles'', PyDict [(''a'', PyDict []), (''B'', PyDict [])])]
       = Inr ''b a''"
    by code_simp
  show "unique_id_from_entry_data [(''vehicles'', PyDict [(''A'', PyDict []), (''b'', PyDict [])])]
       = Inr ''a b''"
    by code_simp
qed

end
